theory Spec2Isabelle
  imports Complex_Main
begin

section \<open>The UR5 robot wrapper: data model\<close>

text \<open>
  The class \<^verbatim>\<open>UR5_Robot\<close> of \<^verbatim>\<open>pythonsrc/ur5_robot/ur5_robot.py\<close> extends the robot
  object of the wrapped framework. Its methods read the robot's vector of joint (DOF)
  values, and otherwise only call into the framework. The model keeps

  \<^item> the attributes the class sets itself (the two flags, the multicontroller, which
    \<^verbatim>\<open>__init__\<close> creates only outside simulation);
  \<^item> the DOF vector of the robot, a list of numbers;
  \<^item> the sequence of calls made into the framework and into \<^verbatim>\<open>time\<close>, in the
    order in which they were made.

  Every exception of the source is a value of type \<open>error\<close>, and each method returns
  its result (or the exception raised) together with the robot as the method left it,
  so that whatever happened before a raise stays visible.
\<close>

subsection \<open>Python floats\<close>

text \<open>
  The joint values of the robot and the constants of the class are numbers; they are
  exact reals (rounding is not modelled). The command value of
  \<^verbatim>\<open>set_gripper_openning\<close> comes from the caller and can be any Python float, also an
  infinity or NaN, and so can an element of the array that the method hands to the
  controller. Such a float is a \<open>pyfloat\<close>. Its comparisons and operations are those of
  Python: every comparison with NaN is false, and NaN goes through the arithmetic.
\<close>

datatype pyfloat = Finite real | PosInf | NegInf | NaN

fun py_lt :: "pyfloat \<Rightarrow> pyfloat \<Rightarrow> bool" where
  "py_lt NaN y = False"
| "py_lt x NaN = False"
| "py_lt (Finite a) (Finite b) = (a < b)"
| "py_lt PosInf y = False"
| "py_lt x PosInf = True"
| "py_lt x NegInf = False"
| "py_lt NegInf y = True"

definition py_gt :: "pyfloat \<Rightarrow> pyfloat \<Rightarrow> bool" where
  "py_gt x y = py_lt y x"

fun py_le :: "pyfloat \<Rightarrow> pyfloat \<Rightarrow> bool" where
  "py_le NaN y = False"
| "py_le x NaN = False"
| "py_le (Finite a) (Finite b) = (a \<le> b)"
| "py_le x PosInf = True"
| "py_le NegInf y = True"
| "py_le PosInf y = False"
| "py_le x NegInf = False"

fun py_abs :: "pyfloat \<Rightarrow> pyfloat" where
  "py_abs (Finite a) = Finite \<bar>a\<bar>"
| "py_abs PosInf = PosInf"
| "py_abs NegInf = PosInf"
| "py_abs NaN = NaN"

text \<open>The sign of an infinity, and the product of a number and an infinity.\<close>

fun inf_of_sign :: "bool \<Rightarrow> pyfloat" where
  "inf_of_sign True = PosInf"
| "inf_of_sign False = NegInf"

definition scale_inf :: "real \<Rightarrow> bool \<Rightarrow> pyfloat" where
  "scale_inf a positive =
     (if a = 0 then NaN else inf_of_sign ((0 < a) = positive))"

fun py_mul :: "pyfloat \<Rightarrow> pyfloat \<Rightarrow> pyfloat" where
  "py_mul NaN y = NaN"
| "py_mul x NaN = NaN"
| "py_mul (Finite a) (Finite b) = Finite (a * b)"
| "py_mul (Finite a) PosInf = scale_inf a True"
| "py_mul (Finite a) NegInf = scale_inf a False"
| "py_mul PosInf (Finite b) = scale_inf b True"
| "py_mul NegInf (Finite b) = scale_inf b False"
| "py_mul PosInf PosInf = PosInf"
| "py_mul PosInf NegInf = NegInf"
| "py_mul NegInf PosInf = NegInf"
| "py_mul NegInf NegInf = PosInf"

subsection \<open>Errors, calls and the robot\<close>

datatype error =
    Exception          \<comment> \<open>\<^verbatim>\<open>raise Exception("You are trying to use a gripper function ...")\<close>\<close>
  | ValueError         \<comment> \<open>\<^verbatim>\<open>raise ValueError("Gripper value should be between 0 and 255.")\<close>\<close>
  | IndexError         \<comment> \<open>index 3 outside the DOF vector\<close>
  | AttributeError     \<comment> \<open>\<^verbatim>\<open>self.multicontroller\<close> read on an object that never got one\<close>

type_synonym kinbody = string
type_synonym trajectory = string

datatype controller = Controller string

datatype call =
    RaveCreateMultiController
  | SetController
  | SetActiveManipulator
  | SetChuckingDirection "real list"
  | SetLocalToolDirection "real list"
  | RaveLogInfo
  | IkAutogenerate
  | TaskManipulation
  | BaseManipulation
  | SetDOFValues "real list"
  | SetDesired "pyfloat list"
  | SetPath trajectory
  | WaitForController real
  | Sleep real
  | Release kinbody
  | ReleaseFingers "kinbody option"
  | CloseFingers

record UR5_Robot =
  robot_name :: string
  is_in_simulation :: bool
  has_gripper :: bool
  multicontroller :: "(controller \<times> nat list \<times> nat) list option"
  dof_values :: "real list"
  calls :: "call list"

text \<open>
  The two constants of \<^verbatim>\<open>__init__\<close> (lines 48 and 49). They are assigned once and
  never written again, so they are constants of the model.
\<close>

definition OPENRAVE_GRIPPER_MAX_VALUE :: real where
  "OPENRAVE_GRIPPER_MAX_VALUE = 0.715584844"

definition ROBOT_GRIPPER_MAX_VALUE :: int where
  "ROBOT_GRIPPER_MAX_VALUE = 255"

section \<open>Calls into the framework\<close>

text \<open>
  A call is appended to the log. \<^verbatim>\<open>SetDOFValues\<close> moreover stores its argument as the
  robot's DOF vector; what the framework does in answer to the other calls (moving the
  joints towards a commanded position, say) is outside this class and is not modelled.
\<close>

fun invoke :: "call \<Rightarrow> UR5_Robot \<Rightarrow> UR5_Robot" where
  "invoke (SetDOFValues vs) r = r\<lparr>dof_values := vs, calls := calls r @ [SetDOFValues vs]\<rparr>"
| "invoke c r = r\<lparr>calls := calls r @ [c]\<rparr>"

text \<open>\<^verbatim>\<open>GetDOFValues()\<close> hands out a fresh copy of the DOF vector and changes nothing.\<close>

definition GetDOFValues :: "UR5_Robot \<Rightarrow> real list" where
  "GetDOFValues r = dof_values r"

text \<open>
  Reading and writing an array at a non-negative index: out of range raises
  \<^verbatim>\<open>IndexError\<close>.
\<close>

definition getitem :: "real list \<Rightarrow> nat \<Rightarrow> error + real" where
  "getitem xs i = (if i < length xs then Inr (xs ! i) else Inl IndexError)"

definition setitem :: "'a list \<Rightarrow> nat \<Rightarrow> 'a \<Rightarrow> error + 'a list" where
  "setitem xs i x = (if i < length xs then Inr (xs[i := x]) else Inl IndexError)"

text \<open>\<^verbatim>\<open>self.Release(kinbody)\<close> under the guard \<^verbatim>\<open>if kinbody is not None\<close>.\<close>

definition release_if_given :: "kinbody option \<Rightarrow> UR5_Robot \<Rightarrow> UR5_Robot" where
  "release_if_given kinbody r = (case kinbody of None \<Rightarrow> r | Some k \<Rightarrow> invoke (Release k) r)"

section \<open>The methods of the class\<close>

text \<open>
  The property \<^verbatim>\<open>end_effector_transform\<close> only forwards to the manipulator and is left
  out. \<^verbatim>\<open>self.GetController()\<close> is taken to return the robot's controller: the commands
  \<^verbatim>\<open>SetDesired\<close> and \<^verbatim>\<open>SetPath\<close> are calls on it.
\<close>

text \<open>
  \<^verbatim>\<open>__init__(self, is_in_simulation, has_gripper)\<close>. The object being initialised is
  the framework's robot: its DOF vector is \<open>dofs\<close>, and \<open>ik_loaded\<close> is the answer of
  \<^verbatim>\<open>self.ikmodel.load()\<close>.
\<close>

definition init :: "real list \<Rightarrow> bool \<Rightarrow> bool \<Rightarrow> bool \<Rightarrow> UR5_Robot" where
  "init dofs ik_loaded in_simulation gripper =
     (let r0 = \<lparr>robot_name = ''UR5'', is_in_simulation = in_simulation,
                has_gripper = gripper, multicontroller = None,
                dof_values = dofs, calls = []\<rparr>;
          r1 = (if \<not> in_simulation
                then invoke SetController
                       (invoke RaveCreateMultiController (r0\<lparr>multicontroller := Some []\<rparr>))
                else r0);
          r2 = invoke SetActiveManipulator r1;
          r3 = (if gripper
                then invoke (SetLocalToolDirection [1.0, 0, 0])
                       (invoke (SetChuckingDirection [1.0]) r2)
                else r2);
          r4 = (if \<not> ik_loaded then invoke IkAutogenerate (invoke RaveLogInfo r3) else r3)
      in invoke BaseManipulation (invoke TaskManipulation r4))"

definition is_gripper_fully_open :: "UR5_Robot \<Rightarrow> (error + bool) \<times> UR5_Robot" where
  "is_gripper_fully_open r =
     (if \<not> has_gripper r then (Inl Exception, r)
      else case getitem (GetDOFValues r) 3 of
             Inl e \<Rightarrow> (Inl e, r)
           | Inr x \<Rightarrow> (Inr (x = 0), r))"

definition is_gripper_fully_closed :: "UR5_Robot \<Rightarrow> (error + bool) \<times> UR5_Robot" where
  "is_gripper_fully_closed r =
     (if \<not> has_gripper r then (Inl Exception, r)
      else case getitem (GetDOFValues r) 3 of
             Inl e \<Rightarrow> (Inl e, r)
           | Inr x \<Rightarrow> (Inr (\<bar>x - OPENRAVE_GRIPPER_MAX_VALUE\<bar> \<le> 0.00001), r))"

text \<open>
  \<^verbatim>\<open>attach_controller(self, name, dof_indices)\<close>. \<open>create\<close> stands for
  \<^verbatim>\<open>RaveCreateController(self.GetEnv(), name)\<close>: the environment answers a name either
  with a controller or with \<^verbatim>\<open>None\<close>.
\<close>

definition attach_controller ::
  "(string \<Rightarrow> controller option) \<Rightarrow> string \<Rightarrow> nat list \<Rightarrow> UR5_Robot \<Rightarrow> (error + bool) \<times> UR5_Robot"
where
  "attach_controller create name dof_indices r =
     (case create name of
        Some ctrl \<Rightarrow>
          (case multicontroller r of
             None \<Rightarrow> (Inl AttributeError, r)
           | Some attached \<Rightarrow>
               (Inr True, r\<lparr>multicontroller := Some (attached @ [(ctrl, dof_indices, 0)])\<rparr>))
      | None \<Rightarrow> (Inr False, r))"

text \<open>
  The conversion of lines 143 to 147: the quotient of the two constants, a number,
  times \<^verbatim>\<open>abs(value)\<close>.
\<close>

definition model_value :: "pyfloat \<Rightarrow> pyfloat" where
  "model_value val =
     py_mul (Finite (OPENRAVE_GRIPPER_MAX_VALUE / real_of_int ROBOT_GRIPPER_MAX_VALUE))
       (py_abs val)"

text \<open>
  \<^verbatim>\<open>set_gripper_openning(self, value)\<close>. The array \<^verbatim>\<open>dof_values\<close> is the float array of
  the robot's joint values, into which \<^verbatim>\<open>model_value\<close> is written at index 3.
\<close>

definition set_gripper_openning :: "pyfloat \<Rightarrow> UR5_Robot \<Rightarrow> (error + unit) \<times> UR5_Robot" where
  "set_gripper_openning val r =
     (if \<not> has_gripper r then (Inl Exception, r)
      else if py_lt val (Finite 0) \<or> py_gt val (Finite 255) then (Inl ValueError, r)
      else case setitem (map Finite (GetDOFValues r)) 3 (model_value val) of
             Inl e \<Rightarrow> (Inl e, r)
           | Inr dofs \<Rightarrow>
               (Inr (), invoke (Sleep 2) (invoke (WaitForController 0) (invoke (SetDesired dofs) r))))"

text \<open>
  \<^verbatim>\<open>_set_dof_value(self, index, value)\<close> is private; the class calls it with index 3
  and the numbers 0.0 and 0.715584844 only.
\<close>

definition set_dof_value :: "nat \<Rightarrow> real \<Rightarrow> UR5_Robot \<Rightarrow> (error + unit) \<times> UR5_Robot" where
  "set_dof_value index val r =
     (case setitem (GetDOFValues r) index val of
        Inl e \<Rightarrow> (Inl e, r)
      | Inr dofs \<Rightarrow> (Inr (), invoke (SetDOFValues dofs) r))"

definition open_gripper :: "kinbody option \<Rightarrow> bool \<Rightarrow> UR5_Robot \<Rightarrow> (error + unit) \<times> UR5_Robot" where
  "open_gripper kinbody execute r =
     (if \<not> has_gripper r then (Inl Exception, r)
      else if \<not> execute then
        (case set_dof_value 3 0.0 r of
           (Inl e, r') \<Rightarrow> (Inl e, r')
         | (Inr u, r') \<Rightarrow> (Inr (), release_if_given kinbody r'))
      else if is_in_simulation r then
        (Inr (), invoke (WaitForController 0) (invoke (ReleaseFingers kinbody) r))
      else
        (case set_gripper_openning (Finite 0) r of
           (Inl e, r') \<Rightarrow> (Inl e, r')
         | (Inr u, r') \<Rightarrow> (Inr (), release_if_given kinbody r')))"

definition close_gripper :: "bool \<Rightarrow> UR5_Robot \<Rightarrow> (error + unit) \<times> UR5_Robot" where
  "close_gripper execute r =
     (if \<not> has_gripper r then (Inl Exception, r)
      else if \<not> execute then set_dof_value 3 OPENRAVE_GRIPPER_MAX_VALUE r
      else if is_in_simulation r then
        (Inr (), invoke (WaitForController 0) (invoke CloseFingers r))
      else set_gripper_openning (Finite 255) r)"

definition execute_trajectory_and_wait_for_controller ::
  "trajectory \<Rightarrow> UR5_Robot \<Rightarrow> (error + unit) \<times> UR5_Robot"
where
  "execute_trajectory_and_wait_for_controller traj r =
     (Inr (), invoke (Sleep 2) (invoke (WaitForController 0) (invoke (SetPath traj) r)))"

text \<open>
  The calls a method added to the log: those of \<open>r'\<close> after the ones \<open>r\<close> had.
\<close>

definition issued :: "UR5_Robot \<Rightarrow> UR5_Robot \<Rightarrow> call list" where
  "issued r r' = drop (length (calls r)) (calls r')"

text \<open>
  The commands given to the controller object (\<^verbatim>\<open>self.GetController()\<close>), and the calls
  that execute something on the robot or hold the caller up.
\<close>

fun is_controller_command :: "call \<Rightarrow> bool" where
  "is_controller_command (SetDesired dofs) = True"
| "is_controller_command (SetPath traj) = True"
| "is_controller_command c = False"

fun is_execution_call :: "call \<Rightarrow> bool" where
  "is_execution_call (SetDesired dofs) = True"
| "is_execution_call (SetPath traj) = True"
| "is_execution_call (WaitForController t) = True"
| "is_execution_call (Sleep s) = True"
| "is_execution_call (ReleaseFingers k) = True"
| "is_execution_call CloseFingers = True"
| "is_execution_call c = False"

text \<open>The two calls of the finger interface of \<^verbatim>\<open>task_manipulation\<close>.\<close>

fun is_finger_call :: "call \<Rightarrow> bool" where
  "is_finger_call (ReleaseFingers k) = True"
| "is_finger_call CloseFingers = True"
| "is_finger_call c = False"

text \<open>
  Every controller command of a sequence of calls is followed at once by
  \<^verbatim>\<open>WaitForController(0)\<close> and \<^verbatim>\<open>time.sleep(2)\<close>.
\<close>

fun followed_by_sync :: "call list \<Rightarrow> bool" where
  "followed_by_sync [] = True"
| "followed_by_sync (c # cs) =
     ((is_controller_command c \<longrightarrow> take 2 cs = [WaitForController 0, Sleep 2])
      \<and> followed_by_sync cs)"

text \<open>
  A float lies in the joint range of the gripper in the model, from 0 to
  \<^verbatim>\<open>_OPENRAVE_GRIPPER_MAX_VALUE\<close>.
\<close>

definition within_joint_range :: "pyfloat \<Rightarrow> bool" where
  "within_joint_range x =
     (py_le (Finite 0) x \<and> py_le x (Finite OPENRAVE_GRIPPER_MAX_VALUE))"

section \<open>Robots to run the methods on\<close>

text \<open>
  Three robots with seven joints, the fourth of them (index 3) half closed, as
  \<^verbatim>\<open>__init__\<close> leaves them: one driving the hardware, one in simulation, and one
  driving the hardware without a gripper. \<open>demo_env\<close> is an environment that knows one
  controller.
\<close>

definition ur5_on_hardware :: UR5_Robot where
  "ur5_on_hardware = init [0, 0, 0, 0.3, 0, 0, 0] True False True"

definition ur5_in_simulation :: UR5_Robot where
  "ur5_in_simulation = init [0, 0, 0, 0.3, 0, 0, 0] True True True"

definition ur5_without_gripper :: UR5_Robot where
  "ur5_without_gripper = init [0, 0, 0, 0.3, 0, 0, 0] True False False"

definition demo_env :: "string \<Rightarrow> controller option" where
  "demo_env name = (if name = ''ur5controller'' then Some (Controller name) else None)"

section \<open>Basic facts\<close>

lemma ur5_on_hardware_eq:
  "ur5_on_hardware =
     \<lparr>robot_name = ''UR5'', is_in_simulation = False, has_gripper = True,
      multicontroller = Some [], dof_values = [0, 0, 0, 0.3, 0, 0, 0],
      calls = [RaveCreateMultiController, SetController, SetActiveManipulator,
               SetChuckingDirection [1], SetLocalToolDirection [1, 0, 0],
               TaskManipulation, BaseManipulation]\<rparr>"
  by (simp add: ur5_on_hardware_def init_def)

lemma ur5_in_simulation_eq:
  "ur5_in_simulation =
     \<lparr>robot_name = ''UR5'', is_in_simulation = True, has_gripper = True,
      multicontroller = None, dof_values = [0, 0, 0, 0.3, 0, 0, 0],
      calls = [SetActiveManipulator, SetChuckingDirection [1],
               SetLocalToolDirection [1, 0, 0], TaskManipulation, BaseManipulation]\<rparr>"
  by (simp add: ur5_in_simulation_def init_def)

lemma ur5_without_gripper_eq:
  "ur5_without_gripper =
     \<lparr>robot_name = ''UR5'', is_in_simulation = False, has_gripper = False,
      multicontroller = Some [], dof_values = [0, 0, 0, 0.3, 0, 0, 0],
      calls = [RaveCreateMultiController, SetController, SetActiveManipulator,
               TaskManipulation, BaseManipulation]\<rparr>"
  by (simp add: ur5_without_gripper_def init_def)

lemma init_multicontroller:
  "multicontroller (init dofs ik_loaded in_simulation gripper) =
     (if in_simulation then None else Some [])"
  by (simp add: init_def Let_def)

lemma init_flags:
  "is_in_simulation (init dofs ik_loaded in_simulation gripper) = in_simulation"
  "has_gripper (init dofs ik_loaded in_simulation gripper) = gripper"
  "dof_values (init dofs ik_loaded in_simulation gripper) = dofs"
  by (simp_all add: init_def Let_def)

lemma model_value_Finite: "model_value (Finite v) = Finite (0.715584844 / 255 * \<bar>v\<bar>)"
  by (simp add: model_value_def OPENRAVE_GRIPPER_MAX_VALUE_def ROBOT_GRIPPER_MAX_VALUE_def)

lemma model_value_nonneg:
  "0 \<le> v \<Longrightarrow> model_value (Finite v) = Finite (0.715584844 / 255 * v)"
  by (simp add: model_value_Finite)

lemma model_value_NaN: "model_value NaN = NaN"
  by (simp add: model_value_def)

lemma model_value_bounds:
  assumes "0 \<le> v" and "v \<le> 255"
  shows "within_joint_range (model_value (Finite v))"
proof -
  have "0.715584844 / 255 * v \<le> 0.715584844 / 255 * (255::real)"
    using assms(2) by (intro mult_left_mono) simp_all
  then have hi: "0.715584844 / 255 * v \<le> (0.715584844::real)"
    by simp
  have lo: "0 \<le> 0.715584844 / 255 * v"
    using assms(1) by simp
  have "within_joint_range (Finite (0.715584844 / 255 * v))"
    unfolding within_joint_range_def OPENRAVE_GRIPPER_MAX_VALUE_def py_le.simps
    using lo hi by (rule conjI)
  then show ?thesis
    by (simp only: model_value_nonneg [OF assms(1)])
qed

text \<open>
  The values that pass the guard of line 133 are the numbers from 0 to 255, and NaN.
\<close>

lemma guard_passed_iff:
  "(\<not> py_lt val (Finite 0) \<and> \<not> py_gt val (Finite 255)) =
     (val = NaN \<or> (\<exists>v. val = Finite v \<and> 0 \<le> v \<and> v \<le> 255))"
  by (cases val) (auto simp: py_gt_def)

text \<open>What \<^verbatim>\<open>set_gripper_openning\<close> does once both guards are passed.\<close>

lemma set_gripper_openning_passed:
  assumes "has_gripper r" and "\<not> py_lt val (Finite 0)" and "\<not> py_gt val (Finite 255)"
  shows "set_gripper_openning val r =
           (if 3 < length (dof_values r)
            then (Inr (), r\<lparr>calls := calls r @
                    [SetDesired ((map Finite (dof_values r))[3 := model_value val]),
                     WaitForController 0, Sleep 2]\<rparr>)
            else (Inl IndexError, r))"
  using assms by (simp add: set_gripper_openning_def setitem_def GetDOFValues_def)

lemma set_gripper_openning_number:
  assumes "has_gripper r" and "0 \<le> v" and "v \<le> 255"
  shows "set_gripper_openning (Finite v) r =
           (if 3 < length (dof_values r)
            then (Inr (), r\<lparr>calls := calls r @
                    [SetDesired ((map Finite (dof_values r))[3 := model_value (Finite v)]),
                     WaitForController 0, Sleep 2]\<rparr>)
            else (Inl IndexError, r))"
  using assms by (simp add: set_gripper_openning_passed py_gt_def)

lemma set_dof_value_eq:
  "set_dof_value i val r =
     (if i < length (dof_values r)
      then (Inr (), r\<lparr>dof_values := (dof_values r)[i := val],
                       calls := calls r @ [SetDOFValues ((dof_values r)[i := val])]\<rparr>)
      else (Inl IndexError, r))"
  by (simp add: set_dof_value_def setitem_def GetDOFValues_def)

lemma issued_append [simp]: "issued r (r'\<lparr>calls := calls r @ cs\<rparr>) = cs"
  by (simp add: issued_def)

lemma issued_same [simp]: "issued r r = []"
  by (simp add: issued_def)

lemma issued_eqI: "calls r' = calls r @ cs \<Longrightarrow> issued r r' = cs"
  by (simp add: issued_def)

lemma calls_release_if_given:
  "calls (release_if_given kinbody r) =
     calls r @ (case kinbody of None \<Rightarrow> [] | Some k \<Rightarrow> [Release k])"
  by (simp add: release_if_given_def split: option.splits)

lemma dof_values_release_if_given: "dof_values (release_if_given kinbody r) = dof_values r"
  by (simp add: release_if_given_def split: option.splits)

text \<open>The calls \<^verbatim>\<open>set_gripper_openning\<close> makes, on every input.\<close>

lemma set_gripper_openning_issued:
  "issued r (snd (set_gripper_openning val r)) =
     (if has_gripper r \<and> \<not> py_lt val (Finite 0) \<and> \<not> py_gt val (Finite 255)
         \<and> 3 < length (dof_values r)
      then [SetDesired ((map Finite (dof_values r))[3 := model_value val]),
            WaitForController 0, Sleep 2]
      else [])"
  by (simp add: set_gripper_openning_def setitem_def GetDOFValues_def issued_def)

text \<open>
  Whenever \<^verbatim>\<open>set_gripper_openning\<close> returns, it has sent \<^verbatim>\<open>model_value\<close> at index 3;
  for every command value but NaN that value lies in the joint range.
\<close>

lemma set_gripper_openning_returns:
  assumes "set_gripper_openning val r = (Inr u, r')"
  shows "has_gripper r \<and> \<not> py_lt val (Finite 0) \<and> \<not> py_gt val (Finite 255)
     \<and> 3 < length (dof_values r)
     \<and> r' = r\<lparr>calls := calls r @
               [SetDesired ((map Finite (dof_values r))[3 := model_value val]),
                WaitForController 0, Sleep 2]\<rparr>"
  using assms
  by (auto simp: set_gripper_openning_def setitem_def GetDOFValues_def split: if_splits)

lemma set_gripper_openning_number_within_joint_range:
  assumes "set_gripper_openning val r = (Inr u, r')" and "val \<noteq> NaN"
  shows "\<exists>dofs. issued r r' = [SetDesired dofs, WaitForController 0, Sleep 2]
           \<and> 3 < length dofs
           \<and> dofs ! 3 = model_value val
           \<and> within_joint_range (dofs ! 3)"
proof -
  note ret = set_gripper_openning_returns [OF assms(1)]
  from ret assms(2) obtain v where v: "val = Finite v" "0 \<le> v" "v \<le> 255"
    using guard_passed_iff [of val] by auto
  have "within_joint_range (model_value val)"
    using model_value_bounds [OF v(2,3)] by (simp add: v(1))
  with ret show ?thesis
    by simp
qed

text \<open>The methods with \<^verbatim>\<open>execute=False\<close>, on a robot that has a joint at index 3.\<close>

lemma open_gripper_no_execute:
  assumes "has_gripper r" and "3 < length (dof_values r)"
  shows "open_gripper kinbody False r =
           (Inr (), release_if_given kinbody
                      (r\<lparr>dof_values := (dof_values r)[3 := 0],
                         calls := calls r @ [SetDOFValues ((dof_values r)[3 := 0])]\<rparr>))"
  using assms by (simp add: open_gripper_def set_dof_value_eq)

lemma close_gripper_no_execute:
  assumes "has_gripper r" and "3 < length (dof_values r)"
  shows "close_gripper False r =
           (Inr (), r\<lparr>dof_values := (dof_values r)[3 := 0.715584844],
                      calls := calls r @ [SetDOFValues ((dof_values r)[3 := 0.715584844])]\<rparr>)"
  using assms
  by (simp add: close_gripper_def set_dof_value_eq OPENRAVE_GRIPPER_MAX_VALUE_def)

text \<open>The calls of \<^verbatim>\<open>open_gripper\<close> and \<^verbatim>\<open>close_gripper\<close>, on every input.\<close>

lemma open_gripper_issued:
  "issued r (snd (open_gripper kinbody execute r)) =
     (if \<not> has_gripper r then []
      else if \<not> execute then
        (if 3 < length (dof_values r)
         then SetDOFValues ((dof_values r)[3 := 0])
                # (case kinbody of None \<Rightarrow> [] | Some k \<Rightarrow> [Release k])
         else [])
      else if is_in_simulation r then [ReleaseFingers kinbody, WaitForController 0]
      else if 3 < length (dof_values r)
        then [SetDesired ((map Finite (dof_values r))[3 := Finite 0]),
              WaitForController 0, Sleep 2]
               @ (case kinbody of None \<Rightarrow> [] | Some k \<Rightarrow> [Release k])
        else [])"
proof -
  have hw: "set_gripper_openning (Finite 0) r =
      (if 3 < length (dof_values r)
       then (Inr (), r\<lparr>calls := calls r @
               [SetDesired ((map Finite (dof_values r))[3 := Finite 0]),
                WaitForController 0, Sleep 2]\<rparr>)
       else (Inl IndexError, r))" if "has_gripper r"
    using that by (simp add: set_gripper_openning_number model_value_nonneg)
  show ?thesis
    by (auto simp: open_gripper_def set_dof_value_eq hw calls_release_if_given
        intro!: issued_eqI split: option.splits)
qed

lemma close_gripper_issued:
  "issued r (snd (close_gripper execute r)) =
     (if \<not> has_gripper r then []
      else if \<not> execute then
        (if 3 < length (dof_values r)
         then [SetDOFValues ((dof_values r)[3 := 0.715584844])] else [])
      else if is_in_simulation r then [CloseFingers, WaitForController 0]
      else if 3 < length (dof_values r)
        then [SetDesired ((map Finite (dof_values r))[3 := Finite 0.715584844]),
              WaitForController 0, Sleep 2]
        else [])"
proof -
  have hw: "set_gripper_openning (Finite 255) r =
      (if 3 < length (dof_values r)
       then (Inr (), r\<lparr>calls := calls r @
               [SetDesired ((map Finite (dof_values r))[3 := Finite 0.715584844]),
                WaitForController 0, Sleep 2]\<rparr>)
       else (Inl IndexError, r))" if "has_gripper r"
    using that by (simp add: set_gripper_openning_number model_value_nonneg)
  show ?thesis
    by (auto simp: close_gripper_def set_dof_value_eq hw OPENRAVE_GRIPPER_MAX_VALUE_def
        intro!: issued_eqI)
qed

section \<open>Range check of the gripper command\<close>

text \<open>
  C2. On a robot with a gripper, \<^verbatim>\<open>set_gripper_openning\<close> raises \<^verbatim>\<open>ValueError\<close> if and
  only if the command value is below 0 or above 255 (\<^verbatim>\<open>value < 0 or value > 255\<close>, for
  every float); for a number \<open>v\<close> that is \<open>v < 0 \<or> v > 255\<close>. Every number from 0 to 255
  is accepted: on a robot that has a joint at index 3 the call returns normally.
\<close>

theorem set_gripper_openning_ValueError_iff:
  assumes "has_gripper r"
  shows "(fst (set_gripper_openning val r) = Inl ValueError)
           = (py_lt val (Finite 0) \<or> py_gt val (Finite 255))
     \<and> (fst (set_gripper_openning (Finite v) r) = Inl ValueError) = (v < 0 \<or> v > 255)
     \<and> (0 \<le> v \<and> v \<le> 255 \<and> 3 < length (dof_values r) \<longrightarrow>
           fst (set_gripper_openning (Finite v) r) = Inr ())"
proof (intro conjI impI)
  show "(fst (set_gripper_openning val r) = Inl ValueError)
          = (py_lt val (Finite 0) \<or> py_gt val (Finite 255))"
    using assms by (simp add: set_gripper_openning_def setitem_def)
next
  show "(fst (set_gripper_openning (Finite v) r) = Inl ValueError) = (v < 0 \<or> v > 255)"
    using assms by (simp add: set_gripper_openning_def setitem_def py_gt_def)
next
  assume "0 \<le> v \<and> v \<le> 255 \<and> 3 < length (dof_values r)"
  then show "fst (set_gripper_openning (Finite v) r) = Inr ()"
    using assms by (simp add: set_gripper_openning_number)
qed

theorem set_gripper_openning_ValueError_iff_witness:
  "has_gripper ur5_on_hardware \<and> 3 < length (dof_values ur5_on_hardware)
   \<and> fst (set_gripper_openning (Finite 256) ur5_on_hardware) = Inl ValueError
   \<and> fst (set_gripper_openning (Finite (- 1)) ur5_on_hardware) = Inl ValueError
   \<and> fst (set_gripper_openning PosInf ur5_on_hardware) = Inl ValueError
   \<and> fst (set_gripper_openning (Finite 255) ur5_on_hardware) = Inr ()
   \<and> fst (set_gripper_openning (Finite 0) ur5_on_hardware) = Inr ()"
proof -
  have g: "has_gripper ur5_on_hardware"
    and n: "3 < length (dof_values ur5_on_hardware)"
    by (simp_all add: ur5_on_hardware_eq)
  show ?thesis
    using g n set_gripper_openning_ValueError_iff [OF g, of "Finite 256" 256]
      set_gripper_openning_ValueError_iff [OF g, of "Finite (- 1)" "- 1"]
      set_gripper_openning_ValueError_iff [OF g, of PosInf 255]
      set_gripper_openning_ValueError_iff [OF g, of "Finite 0" 0]
    by (simp add: py_gt_def)
qed

section \<open>The conversion of the command value\<close>

text \<open>
  C1. With the gripper present and a command value \<open>val\<close> from 0 to 255,
  \<^verbatim>\<open>set_gripper_openning\<close> maps \<open>val\<close> linearly into the joint range of the model by
  the two constants 0.715584844 and 255: on a robot that has a joint at index 3 the
  vector given to \<^verbatim>\<open>SetDesired\<close> is the DOF vector with \<open>0.715584844 / 255 * val\<close>
  written at index 3. So 0 is mapped to 0 and 255 to 0.715584844.
\<close>

theorem set_gripper_openning_linear_map:
  assumes "has_gripper r" and "0 \<le> val" and "val \<le> 255"
    and "3 < length (dof_values r)"
  shows "OPENRAVE_GRIPPER_MAX_VALUE = 0.715584844
     \<and> ROBOT_GRIPPER_MAX_VALUE = 255
     \<and> model_value (Finite val) = Finite (0.715584844 / 255 * val)
     \<and> model_value (Finite 0) = Finite 0
     \<and> model_value (Finite 255) = Finite 0.715584844
     \<and> set_gripper_openning (Finite val) r =
         (Inr (), r\<lparr>calls := calls r @
                     [SetDesired
                        ((map Finite (dof_values r))[3 := Finite (0.715584844 / 255 * val)]),
                      WaitForController 0, Sleep 2]\<rparr>)"
proof -
  have mv: "model_value (Finite val) = Finite (0.715584844 / 255 * val)"
    using assms(2) by (rule model_value_nonneg)
  have m0: "model_value (Finite 0) = Finite 0"
    by (simp add: model_value_nonneg)
  have m255: "model_value (Finite 255) = Finite 0.715584844"
    by (simp add: model_value_nonneg)
  have run: "set_gripper_openning (Finite val) r =
         (Inr (), r\<lparr>calls := calls r @
                     [SetDesired
                        ((map Finite (dof_values r))[3 := Finite (0.715584844 / 255 * val)]),
                      WaitForController 0, Sleep 2]\<rparr>)"
    using assms(4) by (simp add: set_gripper_openning_number [OF assms(1-3)] mv)
  have c1: "OPENRAVE_GRIPPER_MAX_VALUE = 0.715584844"
    by (simp add: OPENRAVE_GRIPPER_MAX_VALUE_def)
  have c2: "ROBOT_GRIPPER_MAX_VALUE = 255"
    by (simp add: ROBOT_GRIPPER_MAX_VALUE_def)
  show ?thesis
    by (intro conjI c1 c2 mv m0 m255 run)
qed

theorem set_gripper_openning_linear_map_witness:
  "has_gripper ur5_on_hardware \<and> (0::real) \<le> 51 \<and> (51::real) \<le> 255
   \<and> 3 < length (dof_values ur5_on_hardware)
   \<and> model_value (Finite 51) = Finite 0.1431169688
   \<and> set_gripper_openning (Finite 51) ur5_on_hardware =
       (Inr (), ur5_on_hardware\<lparr>calls := calls ur5_on_hardware @
                  [SetDesired [Finite 0, Finite 0, Finite 0, Finite 0.1431169688,
                               Finite 0, Finite 0, Finite 0],
                   WaitForController 0, Sleep 2]\<rparr>)"
proof -
  have g: "has_gripper ur5_on_hardware"
    and n: "3 < length (dof_values ur5_on_hardware)"
    and d: "dof_values ur5_on_hardware = [0, 0, 0, 0.3, 0, 0, 0]"
    by (simp_all add: ur5_on_hardware_eq)
  have lo: "(0::real) \<le> 51" and hi: "(51::real) \<le> 255"
    by simp_all
  show ?thesis
    using set_gripper_openning_linear_map [OF g lo hi n] g n
    by (simp add: d)
qed

text \<open>
  C10 says that every command value \<^verbatim>\<open>set_gripper_openning\<close> accepts gives a value
  within the joint range from 0 to 0.715584844 at index 3 of the vector sent to the
  controller. That holds for every accepted number
  (\<open>set_gripper_openning_number_within_joint_range\<close>). It fails for NaN: the guard
  \<^verbatim>\<open>value < 0 or value > 255\<close> is false for it, although the docstring promises a
  \<^verbatim>\<open>ValueError\<close> for a value out of the bounds, so NaN is accepted, converted to NaN,
  written at index 3 and sent by \<^verbatim>\<open>SetDesired\<close>, and NaN is not within the range.
\<close>

theorem set_gripper_openning_NaN_outside_joint_range:
  "has_gripper ur5_on_hardware
   \<and> \<not> py_lt NaN (Finite 0) \<and> \<not> py_gt NaN (Finite 255)
   \<and> model_value NaN = NaN
   \<and> set_gripper_openning NaN ur5_on_hardware =
       (Inr (), ur5_on_hardware\<lparr>calls := calls ur5_on_hardware @
                  [SetDesired [Finite 0, Finite 0, Finite 0, NaN,
                               Finite 0, Finite 0, Finite 0],
                   WaitForController 0, Sleep 2]\<rparr>)
   \<and> \<not> within_joint_range NaN"
proof -
  have g: "has_gripper ur5_on_hardware"
    and d: "dof_values ur5_on_hardware = [0, 0, 0, 0.3, 0, 0, 0]"
    by (simp_all add: ur5_on_hardware_eq)
  have lt: "\<not> py_lt NaN (Finite 0)" and gt: "\<not> py_gt NaN (Finite 255)"
    by (simp_all add: py_gt_def)
  have run: "set_gripper_openning NaN ur5_on_hardware =
       (Inr (), ur5_on_hardware\<lparr>calls := calls ur5_on_hardware @
                  [SetDesired [Finite 0, Finite 0, Finite 0, NaN,
                               Finite 0, Finite 0, Finite 0],
                   WaitForController 0, Sleep 2]\<rparr>)"
    by (simp add: set_gripper_openning_passed [OF g lt gt] d model_value_NaN)
  have out: "\<not> within_joint_range NaN"
    by (simp add: within_joint_range_def)
  show ?thesis
    by (intro conjI g lt gt model_value_NaN run out)
qed

section \<open>Guards\<close>

text \<open>
  C7. When \<^verbatim>\<open>set_gripper_openning\<close> raises because the gripper is absent or because the
  value is below 0 or above 255, it raises before any effect: the robot it leaves is the
  robot it found, with the same DOF vector and no call added to the log (no
  \<^verbatim>\<open>SetDesired\<close>, no wait and no sleep).
\<close>

theorem set_gripper_openning_raises_before_effect:
  assumes "\<not> has_gripper r \<or> py_lt val (Finite 0) \<or> py_gt val (Finite 255)"
  shows "(\<exists>e. fst (set_gripper_openning val r) = Inl e)
     \<and> snd (set_gripper_openning val r) = r
     \<and> dof_values (snd (set_gripper_openning val r)) = dof_values r
     \<and> issued r (snd (set_gripper_openning val r)) = []"
  using assms by (auto simp: set_gripper_openning_def)

theorem set_gripper_openning_raises_before_effect_witness:
  "py_gt (Finite 300) (Finite 255)
   \<and> fst (set_gripper_openning (Finite 300) ur5_on_hardware) = Inl ValueError
   \<and> snd (set_gripper_openning (Finite 300) ur5_on_hardware) = ur5_on_hardware
   \<and> py_lt (Finite (- 1)) (Finite 0)
   \<and> fst (set_gripper_openning (Finite (- 1)) ur5_on_hardware) = Inl ValueError
   \<and> snd (set_gripper_openning (Finite (- 1)) ur5_on_hardware) = ur5_on_hardware
   \<and> \<not> has_gripper ur5_without_gripper
   \<and> fst (set_gripper_openning (Finite 100) ur5_without_gripper) = Inl Exception
   \<and> snd (set_gripper_openning (Finite 100) ur5_without_gripper) = ur5_without_gripper"
proof -
  have a: "\<not> has_gripper ur5_on_hardware
      \<or> py_lt (Finite 300) (Finite 0) \<or> py_gt (Finite 300) (Finite 255)"
    by (simp add: py_gt_def)
  have a': "\<not> has_gripper ur5_on_hardware
      \<or> py_lt (Finite (- 1)) (Finite 0) \<or> py_gt (Finite (- 1)) (Finite 255)"
    by simp
  have b: "\<not> has_gripper ur5_without_gripper
      \<or> py_lt (Finite 100) (Finite 0) \<or> py_gt (Finite 100) (Finite 255)"
    by (simp add: ur5_without_gripper_eq)
  have c: "fst (set_gripper_openning (Finite 300) ur5_on_hardware) = Inl ValueError"
    by (simp add: set_gripper_openning_def ur5_on_hardware_eq py_gt_def)
  have c': "fst (set_gripper_openning (Finite (- 1)) ur5_on_hardware) = Inl ValueError"
    by (simp add: set_gripper_openning_def ur5_on_hardware_eq)
  have d: "fst (set_gripper_openning (Finite 100) ur5_without_gripper) = Inl Exception"
    by (simp add: set_gripper_openning_def ur5_without_gripper_eq)
  have g: "\<not> has_gripper ur5_without_gripper"
    by (simp add: ur5_without_gripper_eq)
  show ?thesis
    using set_gripper_openning_raises_before_effect [OF a]
      set_gripper_openning_raises_before_effect [OF a']
      set_gripper_openning_raises_before_effect [OF b] c c' d g
    by (simp add: py_gt_def)
qed

text \<open>
  C3. On a robot constructed without a gripper each of the five gripper operations
  raises the generic exception, whatever its other arguments are, and does nothing
  else: the robot is left as it was (nothing is retried or recovered).
\<close>

theorem gripper_operations_raise_without_gripper:
  assumes "\<not> has_gripper r"
  shows "is_gripper_fully_open r = (Inl Exception, r)
     \<and> is_gripper_fully_closed r = (Inl Exception, r)
     \<and> set_gripper_openning val r = (Inl Exception, r)
     \<and> open_gripper kinbody execute r = (Inl Exception, r)
     \<and> close_gripper execute r = (Inl Exception, r)"
  using assms
  by (simp add: is_gripper_fully_open_def is_gripper_fully_closed_def
      set_gripper_openning_def open_gripper_def close_gripper_def)

theorem gripper_operations_raise_without_gripper_witness:
  "\<not> has_gripper ur5_without_gripper
   \<and> is_gripper_fully_open ur5_without_gripper = (Inl Exception, ur5_without_gripper)
   \<and> is_gripper_fully_closed ur5_without_gripper = (Inl Exception, ur5_without_gripper)
   \<and> set_gripper_openning (Finite 100) ur5_without_gripper = (Inl Exception, ur5_without_gripper)
   \<and> open_gripper (Some ''box'') True ur5_without_gripper
       = (Inl Exception, ur5_without_gripper)
   \<and> close_gripper False ur5_without_gripper = (Inl Exception, ur5_without_gripper)"
proof -
  have g: "\<not> has_gripper ur5_without_gripper"
    by (simp add: ur5_without_gripper_eq)
  show ?thesis
    using g gripper_operations_raise_without_gripper [OF g, of "Finite 100" "Some ''box''" True]
      gripper_operations_raise_without_gripper [OF g, of "Finite 100" "Some ''box''" False]
    by simp
qed

section \<open>The two checks of the gripper joint\<close>

text \<open>
  C5. On a robot with a gripper and a joint at index 3, \<^verbatim>\<open>is_gripper_fully_open\<close>
  returns true if and only if the DOF value at index 3 is exactly 0, and
  \<^verbatim>\<open>is_gripper_fully_closed\<close> returns true if and only if that value is within 0.00001
  of 0.715584844. Both only read the value: the robot is left as it was.
\<close>

theorem gripper_threshold_checks:
  assumes "has_gripper r" and "3 < length (dof_values r)"
  shows "is_gripper_fully_open r = (Inr (dof_values r ! 3 = 0), r)
     \<and> is_gripper_fully_closed r
         = (Inr (\<bar>dof_values r ! 3 - 0.715584844\<bar> \<le> 0.00001), r)"
  using assms
  by (simp add: is_gripper_fully_open_def is_gripper_fully_closed_def getitem_def
      GetDOFValues_def OPENRAVE_GRIPPER_MAX_VALUE_def)

theorem gripper_threshold_checks_witness:
  "has_gripper ur5_on_hardware \<and> 3 < length (dof_values ur5_on_hardware)
   \<and> is_gripper_fully_open ur5_on_hardware = (Inr False, ur5_on_hardware)
   \<and> is_gripper_fully_closed ur5_on_hardware = (Inr False, ur5_on_hardware)
   \<and> has_gripper (ur5_on_hardware\<lparr>dof_values := [0, 0, 0, 0.715580, 0, 0, 0]\<rparr>)
   \<and> fst (is_gripper_fully_closed
            (ur5_on_hardware\<lparr>dof_values := [0, 0, 0, 0.715580, 0, 0, 0]\<rparr>)) = Inr True
   \<and> fst (is_gripper_fully_open
            (ur5_on_hardware\<lparr>dof_values := [0, 0, 0, 0, 0, 0, 0]\<rparr>)) = Inr True"
proof -
  have g: "has_gripper ur5_on_hardware"
    and n: "3 < length (dof_values ur5_on_hardware)"
    and d: "dof_values ur5_on_hardware = [0, 0, 0, 0.3, 0, 0, 0]"
    by (simp_all add: ur5_on_hardware_eq)
  have g1: "has_gripper (ur5_on_hardware\<lparr>dof_values := [0, 0, 0, 0.715580, 0, 0, 0]\<rparr>)"
    and n1: "3 < length (dof_values (ur5_on_hardware\<lparr>dof_values := [0, 0, 0, 0.715580, 0, 0, 0]\<rparr>))"
    using g by simp_all
  have g2: "has_gripper (ur5_on_hardware\<lparr>dof_values := [0, 0, 0, 0, 0, 0, 0]\<rparr>)"
    and n2: "3 < length (dof_values (ur5_on_hardware\<lparr>dof_values := [0, 0, 0, 0, 0, 0, 0]\<rparr>))"
    using g by simp_all
  show ?thesis
    using gripper_threshold_checks [OF g n] gripper_threshold_checks [OF g1 n1]
      gripper_threshold_checks [OF g2 n2] g n g1
    by (simp add: d)
qed

section \<open>Opening and closing the gripper\<close>

text \<open>
  C4. With the gripper present and \<^verbatim>\<open>execute=True\<close>, \<^verbatim>\<open>open_gripper\<close> and
  \<^verbatim>\<open>close_gripper\<close> take exactly one of two paths, chosen by \<^verbatim>\<open>is_in_simulation\<close>. In
  simulation they call the finger interface (\<^verbatim>\<open>ReleaseFingers\<close>, \<^verbatim>\<open>CloseFingers\<close>) and
  then \<^verbatim>\<open>WaitForController(0)\<close>, and give the controller no command. On hardware they
  call \<^verbatim>\<open>set_gripper_openning\<close> with 0 (open) or 255 (close), and never the finger
  interface.
\<close>

theorem gripper_execute_delegation:
  assumes "has_gripper r"
  shows "(is_in_simulation r \<longrightarrow>
            open_gripper kinbody True r =
              (Inr (), r\<lparr>calls := calls r @ [ReleaseFingers kinbody, WaitForController 0]\<rparr>)
          \<and> close_gripper True r =
              (Inr (), r\<lparr>calls := calls r @ [CloseFingers, WaitForController 0]\<rparr>)
          \<and> \<not> list_ex is_controller_command (issued r (snd (open_gripper kinbody True r)))
          \<and> \<not> list_ex is_controller_command (issued r (snd (close_gripper True r))))
     \<and> (\<not> is_in_simulation r \<longrightarrow>
            open_gripper kinbody True r =
              (case set_gripper_openning (Finite 0) r of
                 (Inl e, r') \<Rightarrow> (Inl e, r')
               | (Inr u, r') \<Rightarrow> (Inr (), release_if_given kinbody r'))
          \<and> close_gripper True r = set_gripper_openning (Finite 255) r
          \<and> \<not> list_ex is_finger_call (issued r (snd (open_gripper kinbody True r)))
          \<and> \<not> list_ex is_finger_call (issued r (snd (close_gripper True r))))"
proof (intro conjI impI)
  assume sim: "is_in_simulation r"
  show "open_gripper kinbody True r =
      (Inr (), r\<lparr>calls := calls r @ [ReleaseFingers kinbody, WaitForController 0]\<rparr>)"
    using assms sim by (simp add: open_gripper_def)
  show "close_gripper True r =
      (Inr (), r\<lparr>calls := calls r @ [CloseFingers, WaitForController 0]\<rparr>)"
    using assms sim by (simp add: close_gripper_def)
  show "\<not> list_ex is_controller_command (issued r (snd (open_gripper kinbody True r)))"
    using assms sim by (simp add: open_gripper_issued)
  show "\<not> list_ex is_controller_command (issued r (snd (close_gripper True r)))"
    using assms sim by (simp add: close_gripper_issued)
next
  assume hw: "\<not> is_in_simulation r"
  show "open_gripper kinbody True r =
      (case set_gripper_openning (Finite 0) r of
         (Inl e, r') \<Rightarrow> (Inl e, r')
       | (Inr u, r') \<Rightarrow> (Inr (), release_if_given kinbody r'))"
    using assms hw by (simp add: open_gripper_def)
  show "close_gripper True r = set_gripper_openning (Finite 255) r"
    using assms hw by (simp add: close_gripper_def)
  show "\<not> list_ex is_finger_call (issued r (snd (open_gripper kinbody True r)))"
    using assms hw by (simp add: open_gripper_issued split: option.splits)
  show "\<not> list_ex is_finger_call (issued r (snd (close_gripper True r)))"
    using assms hw by (simp add: close_gripper_issued)
qed

theorem gripper_execute_delegation_witness:
  "has_gripper ur5_in_simulation \<and> is_in_simulation ur5_in_simulation
   \<and> open_gripper (Some ''box'') True ur5_in_simulation =
       (Inr (), ur5_in_simulation\<lparr>calls := calls ur5_in_simulation @
                  [ReleaseFingers (Some ''box''), WaitForController 0]\<rparr>)
   \<and> close_gripper True ur5_in_simulation =
       (Inr (), ur5_in_simulation\<lparr>calls := calls ur5_in_simulation @
                  [CloseFingers, WaitForController 0]\<rparr>)
   \<and> has_gripper ur5_on_hardware \<and> \<not> is_in_simulation ur5_on_hardware
   \<and> open_gripper (Some ''box'') True ur5_on_hardware =
       (Inr (), ur5_on_hardware\<lparr>calls := calls ur5_on_hardware @
                  [SetDesired [Finite 0, Finite 0, Finite 0, Finite 0,
                               Finite 0, Finite 0, Finite 0],
                   WaitForController 0, Sleep 2, Release ''box'']\<rparr>)
   \<and> close_gripper True ur5_on_hardware =
       (Inr (), ur5_on_hardware\<lparr>calls := calls ur5_on_hardware @
                  [SetDesired [Finite 0, Finite 0, Finite 0, Finite 0.715584844,
                               Finite 0, Finite 0, Finite 0],
                   WaitForController 0, Sleep 2]\<rparr>)"
proof -
  have gs: "has_gripper ur5_in_simulation" and s: "is_in_simulation ur5_in_simulation"
    by (simp_all add: ur5_in_simulation_eq)
  have gh: "has_gripper ur5_on_hardware" and h: "\<not> is_in_simulation ur5_on_hardware"
    by (simp_all add: ur5_on_hardware_eq)
  have o: "set_gripper_openning (Finite 0) ur5_on_hardware =
      (Inr (), ur5_on_hardware\<lparr>calls := calls ur5_on_hardware @
                 [SetDesired [Finite 0, Finite 0, Finite 0, Finite 0,
                              Finite 0, Finite 0, Finite 0],
                  WaitForController 0, Sleep 2]\<rparr>)"
    by (simp add: set_gripper_openning_number model_value_nonneg ur5_on_hardware_eq)
  have c: "set_gripper_openning (Finite 255) ur5_on_hardware =
      (Inr (), ur5_on_hardware\<lparr>calls := calls ur5_on_hardware @
                 [SetDesired [Finite 0, Finite 0, Finite 0, Finite 0.715584844,
                              Finite 0, Finite 0, Finite 0],
                  WaitForController 0, Sleep 2]\<rparr>)"
    by (simp add: set_gripper_openning_number model_value_nonneg ur5_on_hardware_eq)
  show ?thesis
    using gripper_execute_delegation [OF gs, of "Some ''box''"]
      gripper_execute_delegation [OF gh, of "Some ''box''"] gs s gh h
    by (simp add: o c release_if_given_def)
qed

text \<open>
  C8. With the gripper present and \<^verbatim>\<open>execute=False\<close>, on a robot that has a joint at
  index 3, \<^verbatim>\<open>open_gripper\<close> sets the DOF value at index 3 to 0.0 and \<^verbatim>\<open>close_gripper\<close>
  sets it to 0.715584844; every other DOF value stays as it was. Neither gives the
  controller a command, waits or sleeps: \<^verbatim>\<open>SetDOFValues\<close> is their only call, apart
  from the release of the kinbody that \<^verbatim>\<open>open_gripper\<close> was given.
\<close>

theorem gripper_without_execute_frame:
  assumes "has_gripper r" and "3 < length (dof_values r)"
  shows "fst (open_gripper kinbody False r) = Inr ()
     \<and> dof_values (snd (open_gripper kinbody False r)) = (dof_values r)[3 := 0]
     \<and> dof_values (snd (open_gripper kinbody False r)) ! 3 = 0
     \<and> (\<forall>i. i \<noteq> 3 \<longrightarrow>
           dof_values (snd (open_gripper kinbody False r)) ! i = dof_values r ! i)
     \<and> issued r (snd (open_gripper kinbody False r)) =
         SetDOFValues ((dof_values r)[3 := 0])
           # (case kinbody of None \<Rightarrow> [] | Some k \<Rightarrow> [Release k])
     \<and> \<not> list_ex is_execution_call (issued r (snd (open_gripper kinbody False r)))
     \<and> fst (close_gripper False r) = Inr ()
     \<and> dof_values (snd (close_gripper False r)) = (dof_values r)[3 := 0.715584844]
     \<and> dof_values (snd (close_gripper False r)) ! 3 = 0.715584844
     \<and> (\<forall>i. i \<noteq> 3 \<longrightarrow> dof_values (snd (close_gripper False r)) ! i = dof_values r ! i)
     \<and> issued r (snd (close_gripper False r)) =
         [SetDOFValues ((dof_values r)[3 := 0.715584844])]
     \<and> \<not> list_ex is_execution_call (issued r (snd (close_gripper False r)))"
proof -
  note o = open_gripper_no_execute [OF assms, of kinbody]
  note c = close_gripper_no_execute [OF assms]
  have oi: "issued r (snd (open_gripper kinbody False r)) =
         SetDOFValues ((dof_values r)[3 := 0])
           # (case kinbody of None \<Rightarrow> [] | Some k \<Rightarrow> [Release k])"
    using assms by (simp add: open_gripper_issued)
  have ci: "issued r (snd (close_gripper False r)) =
         [SetDOFValues ((dof_values r)[3 := 0.715584844])]"
    using assms by (simp add: close_gripper_issued)
  have od: "dof_values (snd (open_gripper kinbody False r)) = (dof_values r)[3 := 0]"
    by (simp add: o dof_values_release_if_given)
  have cd: "dof_values (snd (close_gripper False r)) = (dof_values r)[3 := 0.715584844]"
    by (simp add: c)
  have oe: "\<not> list_ex is_execution_call (issued r (snd (open_gripper kinbody False r)))"
    by (simp add: oi split: option.splits)
  have ce: "\<not> list_ex is_execution_call (issued r (snd (close_gripper False r)))"
    by (simp add: ci)
  have o3: "dof_values (snd (open_gripper kinbody False r)) ! 3 = 0"
    using assms(2) by (simp add: od)
  have c3: "dof_values (snd (close_gripper False r)) ! 3 = 0.715584844"
    using assms(2) by (simp add: cd)
  have oo: "\<forall>i. i \<noteq> 3 \<longrightarrow>
      dof_values (snd (open_gripper kinbody False r)) ! i = dof_values r ! i"
    by (simp add: od)
  have co: "\<forall>i. i \<noteq> 3 \<longrightarrow>
      dof_values (snd (close_gripper False r)) ! i = dof_values r ! i"
    by (simp add: cd)
  have of: "fst (open_gripper kinbody False r) = Inr ()"
    by (simp add: o)
  have cf: "fst (close_gripper False r) = Inr ()"
    by (simp add: c)
  show ?thesis
    by (intro conjI of od o3 oo oi oe cf cd c3 co ci ce)
qed

theorem gripper_without_execute_frame_witness:
  "has_gripper ur5_on_hardware \<and> 3 < length (dof_values ur5_on_hardware)
   \<and> dof_values ur5_on_hardware = [0, 0, 0, 0.3, 0, 0, 0]
   \<and> dof_values (snd (open_gripper (Some ''box'') False ur5_on_hardware))
       = [0, 0, 0, 0, 0, 0, 0]
   \<and> issued ur5_on_hardware (snd (open_gripper (Some ''box'') False ur5_on_hardware))
       = [SetDOFValues [0, 0, 0, 0, 0, 0, 0], Release ''box'']
   \<and> dof_values (snd (close_gripper False ur5_on_hardware))
       = [0, 0, 0, 0.715584844, 0, 0, 0]
   \<and> issued ur5_on_hardware (snd (close_gripper False ur5_on_hardware))
       = [SetDOFValues [0, 0, 0, 0.715584844, 0, 0, 0]]"
proof -
  have g: "has_gripper ur5_on_hardware"
    and n: "3 < length (dof_values ur5_on_hardware)"
    and d: "dof_values ur5_on_hardware = [0, 0, 0, 0.3, 0, 0, 0]"
    by (simp_all add: ur5_on_hardware_eq)
  show ?thesis
    using gripper_without_execute_frame [OF g n, of "Some ''box''"] g n
    by (simp add: d)
qed

section \<open>Synchronisation after controller commands\<close>

text \<open>
  C6. Every command this class gives to the controller is followed by the same fixed
  synchronisation. \<^verbatim>\<open>set_gripper_openning\<close>, once it has accepted its value, performs
  \<^verbatim>\<open>SetDesired\<close>, then \<^verbatim>\<open>WaitForController(0)\<close>, then \<^verbatim>\<open>time.sleep(2)\<close>, in that
  order and nothing else; \<^verbatim>\<open>execute_trajectory_and_wait_for_controller\<close> performs
  \<^verbatim>\<open>SetPath\<close>, then \<^verbatim>\<open>WaitForController(0)\<close>, then \<^verbatim>\<open>time.sleep(2)\<close>. In the calls
  of every method, on every input, each \<^verbatim>\<open>SetDesired\<close> and each \<^verbatim>\<open>SetPath\<close> is followed
  at once by that wait and that sleep.
\<close>

theorem controller_commands_followed_by_sync:
  "(has_gripper r \<and> \<not> py_lt val (Finite 0) \<and> \<not> py_gt val (Finite 255)
      \<and> 3 < length (dof_values r) \<longrightarrow>
      fst (set_gripper_openning val r) = Inr ()
      \<and> issued r (snd (set_gripper_openning val r)) =
          [SetDesired ((map Finite (dof_values r))[3 := model_value val]),
           WaitForController 0, Sleep 2])
   \<and> (has_gripper r \<and> 0 \<le> v \<and> v \<le> 255 \<and> 3 < length (dof_values r) \<longrightarrow>
      fst (set_gripper_openning (Finite v) r) = Inr ()
      \<and> issued r (snd (set_gripper_openning (Finite v) r)) =
          [SetDesired ((map Finite (dof_values r))[3 := model_value (Finite v)]),
           WaitForController 0, Sleep 2])
   \<and> fst (execute_trajectory_and_wait_for_controller traj r) = Inr ()
   \<and> issued r (snd (execute_trajectory_and_wait_for_controller traj r)) =
       [SetPath traj, WaitForController 0, Sleep 2]
   \<and> followed_by_sync (issued r (snd (set_gripper_openning val r)))
   \<and> followed_by_sync (issued r (snd (execute_trajectory_and_wait_for_controller traj r)))
   \<and> followed_by_sync (issued r (snd (open_gripper kinbody execute r)))
   \<and> followed_by_sync (issued r (snd (close_gripper execute r)))
   \<and> followed_by_sync (issued r (snd (attach_controller create name dof_indices r)))"
proof -
  have ex: "issued r (snd (execute_trajectory_and_wait_for_controller traj r)) =
       [SetPath traj, WaitForController 0, Sleep 2]"
    by (simp add: execute_trajectory_and_wait_for_controller_def issued_def)
  have exr: "fst (execute_trajectory_and_wait_for_controller traj r) = Inr ()"
    by (simp add: execute_trajectory_and_wait_for_controller_def)
  have sg: "has_gripper r \<and> \<not> py_lt val (Finite 0) \<and> \<not> py_gt val (Finite 255)
      \<and> 3 < length (dof_values r) \<longrightarrow>
      fst (set_gripper_openning val r) = Inr ()
      \<and> issued r (snd (set_gripper_openning val r)) =
          [SetDesired ((map Finite (dof_values r))[3 := model_value val]),
           WaitForController 0, Sleep 2]"
    by (simp add: set_gripper_openning_passed)
  have sn: "has_gripper r \<and> 0 \<le> v \<and> v \<le> 255 \<and> 3 < length (dof_values r) \<longrightarrow>
      fst (set_gripper_openning (Finite v) r) = Inr ()
      \<and> issued r (snd (set_gripper_openning (Finite v) r)) =
          [SetDesired ((map Finite (dof_values r))[3 := model_value (Finite v)]),
           WaitForController 0, Sleep 2]"
    by (simp add: set_gripper_openning_number)
  have f1: "followed_by_sync (issued r (snd (set_gripper_openning val r)))"
    by (simp add: set_gripper_openning_issued)
  have f2: "followed_by_sync (issued r (snd (execute_trajectory_and_wait_for_controller traj r)))"
    by (simp add: ex)
  have f3: "followed_by_sync (issued r (snd (open_gripper kinbody execute r)))"
    by (simp add: open_gripper_issued split: option.splits)
  have f4: "followed_by_sync (issued r (snd (close_gripper execute r)))"
    by (simp add: close_gripper_issued)
  have f5: "followed_by_sync (issued r (snd (attach_controller create name dof_indices r)))"
    by (simp add: attach_controller_def issued_def split: option.splits)
  show ?thesis
    by (intro conjI sg sn exr ex f1 f2 f3 f4 f5)
qed

theorem controller_commands_followed_by_sync_witness:
  "has_gripper ur5_on_hardware \<and> (0::real) \<le> 51 \<and> (51::real) \<le> 255
   \<and> 3 < length (dof_values ur5_on_hardware)
   \<and> issued ur5_on_hardware (snd (set_gripper_openning (Finite 51) ur5_on_hardware)) =
       [SetDesired [Finite 0, Finite 0, Finite 0, Finite 0.1431169688,
                    Finite 0, Finite 0, Finite 0],
        WaitForController 0, Sleep 2]
   \<and> is_controller_command
       (SetDesired [Finite 0, Finite 0, Finite 0, Finite 0.1431169688,
                    Finite 0, Finite 0, Finite 0])
   \<and> issued ur5_on_hardware
       (snd (execute_trajectory_and_wait_for_controller ''traj'' ur5_on_hardware)) =
       [SetPath ''traj'', WaitForController 0, Sleep 2]
   \<and> followed_by_sync
       (issued ur5_on_hardware (snd (open_gripper None True ur5_on_hardware)))
   \<and> issued ur5_on_hardware (snd (open_gripper None True ur5_on_hardware)) =
       [SetDesired [Finite 0, Finite 0, Finite 0, Finite 0,
                    Finite 0, Finite 0, Finite 0],
        WaitForController 0, Sleep 2]"
proof -
  have g: "has_gripper ur5_on_hardware"
    and n: "3 < length (dof_values ur5_on_hardware)"
    and d: "dof_values ur5_on_hardware = [0, 0, 0, 0.3, 0, 0, 0]"
    and h: "\<not> is_in_simulation ur5_on_hardware"
    by (simp_all add: ur5_on_hardware_eq)
  have o: "issued ur5_on_hardware (snd (open_gripper None True ur5_on_hardware)) =
       [SetDesired [Finite 0, Finite 0, Finite 0, Finite 0,
                    Finite 0, Finite 0, Finite 0],
        WaitForController 0, Sleep 2]"
    using g n h by (simp add: open_gripper_issued d)
  show ?thesis
    using controller_commands_followed_by_sync
            [of ur5_on_hardware "Finite 51" 51 "''traj''" None True "demo_env"
                "''ur5controller''" "[]"]
      g n o
    by (simp add: d model_value_nonneg py_gt_def)
qed

section \<open>Attaching a controller\<close>

text \<open>
  C9 as stated fails on a robot in simulation. \<^verbatim>\<open>__init__\<close> creates the
  multicontroller only when the robot is not in simulation (\<open>init_multicontroller\<close>),
  so in simulation \<^verbatim>\<open>attach_controller\<close> with a name the environment knows creates
  the controller and then fails on \<^verbatim>\<open>self.multicontroller\<close>: it does not return
  \<^verbatim>\<open>True\<close>.
\<close>

theorem attach_controller_in_simulation_counterexample:
  "demo_env ''ur5controller'' = Some (Controller ''ur5controller'')
   \<and> attach_controller demo_env ''ur5controller'' [0, 1, 2, 3, 4, 5] ur5_in_simulation
       = (Inl AttributeError, ur5_in_simulation)
   \<and> \<not> ((fst (attach_controller demo_env ''ur5controller'' [0, 1, 2, 3, 4, 5]
                ur5_in_simulation) = Inr True)
          = (demo_env ''ur5controller'' \<noteq> None))"
  by (simp add: attach_controller_def demo_env_def ur5_in_simulation_eq)

text \<open>
  C9, amended. On a robot that has a multicontroller, which is what \<^verbatim>\<open>__init__\<close> gives
  a robot constructed outside simulation, \<^verbatim>\<open>attach_controller\<close> returns \<^verbatim>\<open>True\<close> if and
  only if \<^verbatim>\<open>RaveCreateController\<close> returns a controller, and only then attaches the new
  controller (with the DOF indices and 0) to the multicontroller, changing nothing else.
  When the creation fails it returns \<^verbatim>\<open>False\<close> and leaves the robot as it was.
\<close>

theorem attach_controller_with_multicontroller:
  assumes "multicontroller r = Some attached"
  shows "(fst (attach_controller create name dof_indices r) = Inr True)
           = (create name \<noteq> None)
     \<and> (\<forall>ctrl. create name = Some ctrl \<longrightarrow>
           attach_controller create name dof_indices r =
             (Inr True, r\<lparr>multicontroller := Some (attached @ [(ctrl, dof_indices, 0)])\<rparr>))
     \<and> (create name = None \<longrightarrow>
           attach_controller create name dof_indices r = (Inr False, r))
     \<and> multicontroller (init dofs ik_loaded False gripper) = Some []"
  using assms
  by (auto simp: attach_controller_def init_multicontroller split: option.splits)

theorem attach_controller_with_multicontroller_witness:
  "multicontroller ur5_on_hardware = Some []
   \<and> demo_env ''ur5controller'' = Some (Controller ''ur5controller'')
   \<and> attach_controller demo_env ''ur5controller'' [0, 1, 2, 3, 4, 5] ur5_on_hardware =
       (Inr True, ur5_on_hardware\<lparr>multicontroller :=
                    Some [(Controller ''ur5controller'', [0, 1, 2, 3, 4, 5], 0)]\<rparr>)
   \<and> demo_env ''nosuchcontroller'' = None
   \<and> attach_controller demo_env ''nosuchcontroller'' [0, 1, 2, 3, 4, 5] ur5_on_hardware =
       (Inr False, ur5_on_hardware)"
proof -
  have m: "multicontroller ur5_on_hardware = Some []"
    by (simp add: ur5_on_hardware_eq)
  have a: "demo_env ''ur5controller'' = Some (Controller ''ur5controller'')"
    and b: "demo_env ''nosuchcontroller'' = None"
    by (simp_all add: demo_env_def)
  show ?thesis
    using attach_controller_with_multicontroller
            [OF m, of demo_env "''ur5controller''" "[0, 1, 2, 3, 4, 5]"]
      attach_controller_with_multicontroller
            [OF m, of demo_env "''nosuchcontroller''" "[0, 1, 2, 3, 4, 5]"]
      m a b
    by simp
qed

end
